theory Spec2Isabelle
  imports Main
begin

section \<open>Types of the SDK that the custom pollers use\<close>

text \<open>
  \<^verbatim>\<open>time.Duration\<close> counts nanoseconds; the only duration the pollers build is the
  constant \<^verbatim>\<open>10 * time.Second\<close>, far from the int64 range, so durations are integers.
\<close>

type_synonym Duration = int

definition Second :: Duration where
  "Second = 1000000000"

text \<open>
  \<^verbatim>\<open>extensions.ClusterId\<close> is only ever formatted with \<^verbatim>\<open>%s\<close> and handed to the client:
  it is represented by its rendering. An error coming back from the SDK client is
  represented by its \<^verbatim>\<open>%+v\<close> rendering.
\<close>

type_synonym ClusterId = string

type_synonym sdk_error = string

text \<open>
  \<^verbatim>\<open>context.Context\<close>, reduced to what a caller of the pollers can observe of it: the
  instant at which \<^verbatim>\<open>Done()\<close> closes, if ever, in nanoseconds on a clock that reads 0
  when the caller starts to wait.
\<close>

record Context =
  cancelled_at :: "int option"

text \<open>The pointers \<^verbatim>\<open>*http.Response\<close> and \<^verbatim>\<open>*odata.OData\<close> are opaque to the pollers.\<close>

datatype http_Response = http_Response nat

datatype odata_OData = odata_OData nat

record ClusterMonitoringResponse =
  ClusterMonitoringEnabled :: "bool option"
  WorkspaceId :: "string option"

record GetMonitoringStatusOperationResponse =
  resp_HttpResponse :: "http_Response option"
  resp_OData :: "odata_OData option"
  resp_Model :: "ClusterMonitoringResponse option"

text \<open>
  The client is a handle on the remote service. A call is an effect on the service, so
  the method takes the state \<open>'w\<close> of the world and returns the Go pair
  \<^verbatim>\<open>(resp, err)\<close> together with the world after the call.
\<close>

record 'w ExtensionsClient =
  GetMonitoringStatus ::
    "Context \<Rightarrow> ClusterId \<Rightarrow> 'w \<Rightarrow> (GetMonitoringStatusOperationResponse \<times> sdk_error option) \<times> 'w"

record client_Response =
  Response_OData :: "odata_OData option"
  Response_Response :: "http_Response option"

text \<open>
  Modelled from the spec: the declaration of \<^verbatim>\<open>pollers.PollingStatus\<close> is not among the
  sources; the spec gives the status of a Poll Result as the tri-state
  \<^verbatim>\<open>InProgress\<close>, \<^verbatim>\<open>Succeeded\<close>, \<^verbatim>\<open>Failed\<close>.
\<close>

datatype PollingStatus =
  PollingStatusInProgress
| PollingStatusSucceeded
| PollingStatusFailed

record PollResult =
  HttpResponse :: "client_Response option"
  PollInterval :: Duration
  Status :: PollingStatus

text \<open>
  The errors that \<^verbatim>\<open>Poll\<close> builds with \<^verbatim>\<open>fmt.Errorf\<close>. The Go value is the message
  alone; the constructor records which of the three \<^verbatim>\<open>return nil, fmt.Errorf(...)\<close>
  statements built it (the failed query, the nil \<^verbatim>\<open>Model\<close>, the nil
  \<^verbatim>\<open>ClusterMonitoringEnabled\<close>).
\<close>

datatype poll_error =
  StatusQueryError string
| ModelNilError string
| FieldNilError string

text \<open>
  What \<^verbatim>\<open>Poll(ctx) (*pollers.PollResult, error)\<close> returns: the Go pair, each component
  \<open>None\<close> when nil. A method is run on a store \<open>'s\<close> (its receiver and the world) and
  returns the store after the call.
\<close>

type_synonym poll_return = "PollResult option \<times> poll_error option"

type_synonym 's PollerType = "Context \<Rightarrow> 's \<Rightarrow> poll_return \<times> 's"

section \<open>DisableAzureMonitorPoller\<close>

record 'w DisableAzureMonitorPoller =
  client :: "'w ExtensionsClient"
  clusterId :: ClusterId

definition NewDisableAzureMonitorPoller ::
  "'w ExtensionsClient \<Rightarrow> ClusterId \<Rightarrow> 'w DisableAzureMonitorPoller" where
  "NewDisableAzureMonitorPoller c cid =
     \<lparr>DisableAzureMonitorPoller.client = c, DisableAzureMonitorPoller.clusterId = cid\<rparr>"

definition DisableAzureMonitorPoller_Poll ::
  "('w DisableAzureMonitorPoller \<times> 'w) PollerType" where
  "DisableAzureMonitorPoller_Poll ctx s =
     (case s of (p, w) \<Rightarrow>
      (case GetMonitoringStatus (DisableAzureMonitorPoller.client p) ctx
              (DisableAzureMonitorPoller.clusterId p) w of
         ((resp, err), w') \<Rightarrow>
           (case err of
              Some e \<Rightarrow>
                ((None, Some (StatusQueryError
                   (''retrieving Azure Monitor Status for ''
                      @ DisableAzureMonitorPoller.clusterId p @ '': '' @ e))), (p, w'))
            | None \<Rightarrow>
                (case resp_Model resp of
                   None \<Rightarrow>
                     ((None, Some (ModelNilError
                        (''retrieving Azure Monitor Status for ''
                           @ DisableAzureMonitorPoller.clusterId p
                           @ '': `model` was nil''))), (p, w'))
                 | Some model \<Rightarrow>
                     (case ClusterMonitoringEnabled model of
                        None \<Rightarrow>
                          ((None, Some (FieldNilError
                             (''retrieving Azure Monitor Status for ''
                                @ DisableAzureMonitorPoller.clusterId p
                                @ '': `model.ClusterMonitoringEnabled` was nil''))), (p, w'))
                      | Some enabled \<Rightarrow>
                          (let status = (if \<not> enabled then PollingStatusSucceeded
                                         else PollingStatusInProgress)
                           in ((Some \<lparr>HttpResponse =
                                        Some \<lparr>Response_OData = resp_OData resp,
                                              Response_Response = resp_HttpResponse resp\<rparr>,
                                      PollInterval = 10 * Second,
                                      Status = status\<rparr>, None), (p, w'))))))))"

section \<open>DisableMonitoringPoller\<close>

record 'w DisableMonitoringPoller =
  client :: "'w ExtensionsClient"
  clusterId :: ClusterId

definition NewDisableMonitoringPoller ::
  "'w ExtensionsClient \<Rightarrow> ClusterId \<Rightarrow> 'w DisableMonitoringPoller" where
  "NewDisableMonitoringPoller c cid =
     \<lparr>DisableMonitoringPoller.client = c, DisableMonitoringPoller.clusterId = cid\<rparr>"

definition DisableMonitoringPoller_Poll ::
  "('w DisableMonitoringPoller \<times> 'w) PollerType" where
  "DisableMonitoringPoller_Poll ctx s =
     (case s of (p, w) \<Rightarrow>
      (case GetMonitoringStatus (DisableMonitoringPoller.client p) ctx
              (DisableMonitoringPoller.clusterId p) w of
         ((resp, err), w') \<Rightarrow>
           (case err of
              Some e \<Rightarrow>
                ((None, Some (StatusQueryError
                   (''retrieving Monitoring Status for ''
                      @ DisableMonitoringPoller.clusterId p @ '': '' @ e))), (p, w'))
            | None \<Rightarrow>
                (case resp_Model resp of
                   None \<Rightarrow>
                     ((None, Some (ModelNilError
                        (''retrieving Monitoring Status for ''
                           @ DisableMonitoringPoller.clusterId p
                           @ '': `model` was nil''))), (p, w'))
                 | Some model \<Rightarrow>
                     (case ClusterMonitoringEnabled model of
                        None \<Rightarrow>
                          ((None, Some (FieldNilError
                             (''retrieving Monitoring Status for ''
                                @ DisableMonitoringPoller.clusterId p
                                @ '': `model.ClusterMonitoringEnabled` was nil''))), (p, w'))
                      | Some enabled \<Rightarrow>
                          (let status = (if \<not> enabled then PollingStatusSucceeded
                                         else PollingStatusInProgress)
                           in ((Some \<lparr>HttpResponse =
                                        Some \<lparr>Response_OData = resp_OData resp,
                                              Response_Response = resp_HttpResponse resp\<rparr>,
                                      PollInterval = 10 * Second,
                                      Status = status\<rparr>, None), (p, w'))))))))"

section \<open>Repeated invocation and a simulated client\<close>

text \<open>\<open>n\<close> successive calls of a \<^verbatim>\<open>Poll\<close> method, each on the store the previous one left.\<close>

fun invoke_times :: "nat \<Rightarrow> 's PollerType \<Rightarrow> Context \<Rightarrow> 's \<Rightarrow> poll_return list \<times> 's" where
  "invoke_times 0 poll ctx s = ([], s)"
| "invoke_times (Suc n) poll ctx s =
     (case poll ctx s of
        (r, s') \<Rightarrow> (case invoke_times n poll ctx s' of (rs, s'') \<Rightarrow> (r # rs, s'')))"

text \<open>
  A simulated service: the world is the list of answers still to be given, and every
  query consumes one. Once the list is exhausted the query fails.
\<close>

type_synonym script = "(GetMonitoringStatusOperationResponse \<times> sdk_error option) list"

definition scripted_client :: "script ExtensionsClient" where
  "scripted_client =
     \<lparr>GetMonitoringStatus = (\<lambda>ctx cid w.
        (case w of
           [] \<Rightarrow> ((\<lparr>resp_HttpResponse = None, resp_OData = None, resp_Model = None\<rparr>,
                   Some ''connection refused''), [])
         | q # qs \<Rightarrow> (q, qs)))\<rparr>"

definition monitoring :: "bool option \<Rightarrow> GetMonitoringStatusOperationResponse \<times> sdk_error option" where
  "monitoring flag =
     (\<lparr>resp_HttpResponse = Some (http_Response 200), resp_OData = None,
       resp_Model = Some \<lparr>ClusterMonitoringEnabled = flag, WorkspaceId = None\<rparr>\<rparr>, None)"

definition no_model :: "GetMonitoringStatusOperationResponse \<times> sdk_error option" where
  "no_model =
     (\<lparr>resp_HttpResponse = Some (http_Response 200), resp_OData = None, resp_Model = None\<rparr>, None)"

definition query_failure :: "sdk_error \<Rightarrow> GetMonitoringStatusOperationResponse \<times> sdk_error option" where
  "query_failure e =
     (\<lparr>resp_HttpResponse = None, resp_OData = None, resp_Model = None\<rparr>, Some e)"

text \<open>A service whose state is the flag itself and which a query leaves as it is.\<close>

definition steady_client :: "bool option ExtensionsClient" where
  "steady_client = \<lparr>GetMonitoringStatus = (\<lambda>ctx cid w. (monitoring w, w))\<rparr>"

text \<open>Inputs and expected results of the worked scenarios.\<close>

definition cluster :: ClusterId where
  "cluster = ''/subscriptions/0/resourceGroups/rg/providers/Microsoft.HDInsight/clusters/c1''"

definition background :: Context where
  "background = \<lparr>cancelled_at = None\<rparr>"

definition cancelled_after_15s :: Context where
  "cancelled_after_15s = \<lparr>cancelled_at = Some 15000000000\<rparr>"

definition flag_true_result :: PollResult where
  "flag_true_result =
     \<lparr>HttpResponse = Some \<lparr>Response_OData = None, Response_Response = Some (http_Response 200)\<rparr>,
      PollInterval = 10000000000, Status = PollingStatusInProgress\<rparr>"

definition flag_false_result :: PollResult where
  "flag_false_result =
     \<lparr>HttpResponse = Some \<lparr>Response_OData = None, Response_Response = Some (http_Response 200)\<rparr>,
      PollInterval = 10000000000, Status = PollingStatusSucceeded\<rparr>"

text \<open>
  Two errors are compared up to their message text by rewriting the message and keeping
  the constructor.
\<close>

fun map_message :: "(string \<Rightarrow> string) \<Rightarrow> poll_error \<Rightarrow> poll_error" where
  "map_message f (StatusQueryError msg) = StatusQueryError (f msg)"
| "map_message f (ModelNilError msg) = ModelNilError (f msg)"
| "map_message f (FieldNilError msg) = FieldNilError (f msg)"

section \<open>The Poller Driver\<close>

text \<open>
  Modelled from the spec: \<^verbatim>\<open>pollers.NewPoller\<close> and \<^verbatim>\<open>PollUntilDone\<close> are called by
  \<^verbatim>\<open>disableHDInsightMonitoring\<close> and its siblings, but their code is not among the
  sources. The driver below follows the state machine of the spec (section 4.2) and its
  error taxonomy (section 7):
  \<^item> it is constructed from a Poll Operation, an initial poll interval and the number of
    tolerated consecutive transport failures;
  \<^item> its state is the current interval and the count of consecutive failures; the
    logical clock \<open>now\<close> (nanoseconds since the call) and the number of polls issued are
    kept beside them;
  \<^item> cancellation is observed immediately before a poll and during a wait;
  \<^item> status \<^verbatim>\<open>Succeeded\<close> returns nil; \<^verbatim>\<open>InProgress\<close> waits for the suggested interval
    (the initial interval when the result leaves it at zero); \<^verbatim>\<open>Failed\<close> is terminal
    and returns an error of its own;
  \<^item> a failed status query (an error for which \<open>is_QueryError\<close> holds) counts as a
    consecutive failure, is fatal once the count exceeds the allowance and is retried
    after waiting for the current interval otherwise; a poll that returns a result resets
    the count;
  \<^item> a response with missing fields, or no result and no error at all, is fatal at once.
  The loop may run forever, so it takes fuel: \<open>None\<close> means that it has not returned
  within that many polls.
\<close>

datatype driver_error =
  MalformedResponseError "poll_error option"
| TimeoutExceededError poll_error
| CancellationError
| OperationFailedError

record 's Poller =
  operation :: "'s PollerType"
  initialInterval :: Duration
  failureAllowance :: nat

definition NewPoller :: "'s PollerType \<Rightarrow> Duration \<Rightarrow> nat \<Rightarrow> 's Poller" where
  "NewPoller poll d n = \<lparr>operation = poll, initialInterval = d, failureAllowance = n\<rparr>"

record DriverState =
  interval :: Duration
  failures :: nat
  now :: int
  polls :: nat

datatype 's step_result =
  Done "driver_error option" DriverState 's
| Continue DriverState 's

fun is_QueryError :: "poll_error \<Rightarrow> bool" where
  "is_QueryError (StatusQueryError msg) = True"
| "is_QueryError (ModelNilError msg) = False"
| "is_QueryError (FieldNilError msg) = False"

definition cancelled :: "Context \<Rightarrow> int \<Rightarrow> bool" where
  "cancelled ctx t = (case cancelled_at ctx of None \<Rightarrow> False | Some c \<Rightarrow> c \<le> t)"

definition wait :: "Context \<Rightarrow> Duration \<Rightarrow> DriverState \<Rightarrow> 's \<Rightarrow> 's step_result" where
  "wait ctx d st s =
     (case cancelled_at ctx of
        None \<Rightarrow> Continue (st\<lparr>now := now st + max 0 d\<rparr>) s
      | Some c \<Rightarrow>
          (if c \<le> now st + max 0 d
           then Done (Some CancellationError) (st\<lparr>now := max (now st) c\<rparr>) s
           else Continue (st\<lparr>now := now st + max 0 d\<rparr>) s))"

definition suggested_interval :: "'s Poller \<Rightarrow> PollResult \<Rightarrow> Duration" where
  "suggested_interval P r = (if PollInterval r = 0 then initialInterval P else PollInterval r)"

definition driver_step :: "'s Poller \<Rightarrow> Context \<Rightarrow> DriverState \<Rightarrow> 's \<Rightarrow> 's step_result" where
  "driver_step P ctx st s =
     (if cancelled ctx (now st) then Done (Some CancellationError) st s
      else
        (case operation P ctx s of
           ((res, err), s') \<Rightarrow>
             (let st1 = st\<lparr>polls := Suc (polls st)\<rparr> in
              (case err of
                 Some e \<Rightarrow>
                   (if is_QueryError e then
                      (let st2 = st1\<lparr>failures := Suc (failures st1)\<rparr> in
                       if failureAllowance P < failures st2
                       then Done (Some (TimeoutExceededError e)) st2 s'
                       else wait ctx (interval st2) st2 s')
                    else Done (Some (MalformedResponseError (Some e))) st1 s')
               | None \<Rightarrow>
                   (case res of
                      None \<Rightarrow> Done (Some (MalformedResponseError None)) st1 s'
                    | Some r \<Rightarrow>
                        (let st2 = st1\<lparr>failures := 0\<rparr> in
                         (case Status r of
                            PollingStatusSucceeded \<Rightarrow> Done None st2 s'
                          | PollingStatusFailed \<Rightarrow> Done (Some OperationFailedError) st2 s'
                          | PollingStatusInProgress \<Rightarrow>
                              (let d = suggested_interval P r
                               in wait ctx d (st2\<lparr>interval := d\<rparr>) s'))))))))"

fun PollUntilDone_loop ::
  "nat \<Rightarrow> 's Poller \<Rightarrow> Context \<Rightarrow> DriverState \<Rightarrow> 's \<Rightarrow> (driver_error option \<times> DriverState \<times> 's) option" where
  "PollUntilDone_loop 0 P ctx st s = None"
| "PollUntilDone_loop (Suc fuel) P ctx st s =
     (case driver_step P ctx st s of
        Done e st' s' \<Rightarrow> Some (e, st', s')
      | Continue st' s' \<Rightarrow> PollUntilDone_loop fuel P ctx st' s')"

definition initial_state :: "'s Poller \<Rightarrow> DriverState" where
  "initial_state P = \<lparr>interval = initialInterval P, failures = 0, now = 0, polls = 0\<rparr>"

definition PollUntilDone ::
  "nat \<Rightarrow> 's Poller \<Rightarrow> Context \<Rightarrow> 's \<Rightarrow> (driver_error option \<times> DriverState \<times> 's) option" where
  "PollUntilDone fuel P ctx s = PollUntilDone_loop fuel P ctx (initial_state P) s"


section \<open>Properties of the two \<^verbatim>\<open>Poll\<close> methods\<close>

lemmas New_defs = NewDisableAzureMonitorPoller_def NewDisableMonitoringPoller_def

lemmas scenario_defs = DisableAzureMonitorPoller_Poll_def DisableMonitoringPoller_Poll_def
  NewDisableAzureMonitorPoller_def NewDisableMonitoringPoller_def scripted_client_def
  monitoring_def no_model_def query_failure_def background_def cluster_def
  flag_true_result_def flag_false_result_def Second_def

lemma AzureMonitor_Poll_eq:
  assumes "GetMonitoringStatus (DisableAzureMonitorPoller.client p) ctx
             (DisableAzureMonitorPoller.clusterId p) w = ((resp, err), w')"
  shows "DisableAzureMonitorPoller_Poll ctx (p, w) =
     ((case err of
         Some e \<Rightarrow> (None, Some (StatusQueryError
                   (''retrieving Azure Monitor Status for ''
                      @ DisableAzureMonitorPoller.clusterId p @ '': '' @ e)))
       | None \<Rightarrow>
          (case resp_Model resp of
             None \<Rightarrow> (None, Some (ModelNilError
                        (''retrieving Azure Monitor Status for ''
                           @ DisableAzureMonitorPoller.clusterId p
                           @ '': `model` was nil'')))
           | Some model \<Rightarrow>
              (case ClusterMonitoringEnabled model of
                 None \<Rightarrow> (None, Some (FieldNilError
                             (''retrieving Azure Monitor Status for ''
                                @ DisableAzureMonitorPoller.clusterId p
                                @ '': `model.ClusterMonitoringEnabled` was nil'')))
               | Some enabled \<Rightarrow>
                  (Some \<lparr>HttpResponse = Some \<lparr>Response_OData = resp_OData resp,
                                              Response_Response = resp_HttpResponse resp\<rparr>,
                         PollInterval = 10 * Second,
                         Status = (if enabled then PollingStatusInProgress
                                   else PollingStatusSucceeded)\<rparr>, None)))), (p, w'))"
  using assms by (simp add: DisableAzureMonitorPoller_Poll_def split: option.splits)

lemma Monitoring_Poll_eq:
  assumes "GetMonitoringStatus (DisableMonitoringPoller.client p) ctx
             (DisableMonitoringPoller.clusterId p) w = ((resp, err), w')"
  shows "DisableMonitoringPoller_Poll ctx (p, w) =
     ((case err of
         Some e \<Rightarrow> (None, Some (StatusQueryError
                   (''retrieving Monitoring Status for ''
                      @ DisableMonitoringPoller.clusterId p @ '': '' @ e)))
       | None \<Rightarrow>
          (case resp_Model resp of
             None \<Rightarrow> (None, Some (ModelNilError
                        (''retrieving Monitoring Status for ''
                           @ DisableMonitoringPoller.clusterId p
                           @ '': `model` was nil'')))
           | Some model \<Rightarrow>
              (case ClusterMonitoringEnabled model of
                 None \<Rightarrow> (None, Some (FieldNilError
                             (''retrieving Monitoring Status for ''
                                @ DisableMonitoringPoller.clusterId p
                                @ '': `model.ClusterMonitoringEnabled` was nil'')))
               | Some enabled \<Rightarrow>
                  (Some \<lparr>HttpResponse = Some \<lparr>Response_OData = resp_OData resp,
                                              Response_Response = resp_HttpResponse resp\<rparr>,
                         PollInterval = 10 * Second,
                         Status = (if enabled then PollingStatusInProgress
                                   else PollingStatusSucceeded)\<rparr>, None)))), (p, w'))"
  using assms by (simp add: DisableMonitoringPoller_Poll_def split: option.splits)

lemma AzureMonitor_Poll_interval:
  "fst (fst (DisableAzureMonitorPoller_Poll ctx s)) = Some r \<Longrightarrow> PollInterval r = 10 * Second"
  by (cases s)
     (auto simp: DisableAzureMonitorPoller_Poll_def split: prod.splits option.splits)

lemma Monitoring_Poll_interval:
  "fst (fst (DisableMonitoringPoller_Poll ctx s)) = Some r \<Longrightarrow> PollInterval r = 10 * Second"
  by (cases s)
     (auto simp: DisableMonitoringPoller_Poll_def split: prod.splits option.splits)

lemma invoke_times_Suc:
  "invoke_times (Suc n) poll ctx s =
     (fst (poll ctx s) # fst (invoke_times n poll ctx (snd (poll ctx s))),
      snd (invoke_times n poll ctx (snd (poll ctx s))))"
  by (simp split: prod.splits)

lemma invoke_times_results:
  assumes "\<And>s r e. fst (fst (poll ctx s)) = Some r \<Longrightarrow> Q r"
    and "(Some r, e) \<in> set (fst (invoke_times n poll ctx s))"
  shows "Q r"
  using assms(2)
proof (induction n arbitrary: s)
  case 0
  then show ?case by simp
next
  case (Suc n)
  obtain x s' where x: "poll ctx s = (x, s')" by (cases "poll ctx s")
  obtain xs s'' where xs: "invoke_times n poll ctx s' = (xs, s'')"
    by (cases "invoke_times n poll ctx s'")
  from Suc.prems x xs have "(Some r, e) = x \<or> (Some r, e) \<in> set xs" by auto
  then show ?case
  proof
    assume "(Some r, e) = x"
    with x have "fst (fst (poll ctx s)) = Some r" by (metis fst_conv)
    then show ?thesis by (rule assms(1))
  next
    assume "(Some r, e) \<in> set xs"
    with xs have "(Some r, e) \<in> set (fst (invoke_times n poll ctx s'))" by simp
    then show ?thesis by (rule Suc.IH)
  qed
qed

lemma invoke_times_fixed:
  assumes "poll ctx s = (r, s)"
  shows "invoke_times n poll ctx s = (replicate n r, s)"
  using assms by (induction n) simp_all

section \<open>Steps of the driver\<close>

lemma not_cancelled_before:
  "\<forall>c. cancelled_at ctx = Some c \<longrightarrow> t < c \<Longrightarrow> t' \<le> t \<Longrightarrow> \<not> cancelled ctx t'"
  by (auto simp: cancelled_def split: option.splits)

lemma step_cancelled:
  "cancelled ctx (now st) \<Longrightarrow> driver_step P ctx st s = Done (Some CancellationError) st s"
  by (simp add: driver_step_def)

lemma step_succeeded:
  assumes "\<not> cancelled ctx (now st)" and "operation P ctx s = ((Some r, None), s')"
    and "Status r = PollingStatusSucceeded"
  shows "driver_step P ctx st s = Done None (st\<lparr>polls := Suc (polls st), failures := 0\<rparr>) s'"
  using assms by (simp add: driver_step_def)

lemma step_in_progress:
  assumes "\<not> cancelled ctx (now st)" and "operation P ctx s = ((Some r, None), s')"
    and "Status r = PollingStatusInProgress"
  shows "driver_step P ctx st s =
     wait ctx (suggested_interval P r)
       (st\<lparr>polls := Suc (polls st), failures := 0, interval := suggested_interval P r\<rparr>) s'"
  using assms by (simp add: driver_step_def Let_def)

lemma step_query_error:
  assumes "\<not> cancelled ctx (now st)" and "operation P ctx s = ((res, Some e), s')"
    and "is_QueryError e"
  shows "driver_step P ctx st s =
     (if failureAllowance P < Suc (failures st)
      then Done (Some (TimeoutExceededError e))
             (st\<lparr>polls := Suc (polls st), failures := Suc (failures st)\<rparr>) s'
      else wait ctx (interval st)
             (st\<lparr>polls := Suc (polls st), failures := Suc (failures st)\<rparr>) s')"
  using assms by (simp add: driver_step_def Let_def)


lemma step_result_resets_failures:
  assumes "\<not> cancelled ctx (now st)" and "operation P ctx s = ((Some r, None), s')"
  shows "\<exists>e st'. (driver_step P ctx st s = Done e st' s' \<or> driver_step P ctx st s = Continue st' s')
               \<and> failures st' = 0 \<and> polls st' = Suc (polls st)"
  using assms
  by (cases "Status r") (auto simp: driver_step_def Let_def wait_def split: option.splits)

lemma wait_elapses:
  "\<not> cancelled ctx (now st + max 0 d) \<Longrightarrow> wait ctx d st s = Continue (st\<lparr>now := now st + max 0 d\<rparr>) s"
  by (simp add: wait_def cancelled_def split: option.splits)

lemma wait_interrupted:
  "cancelled_at ctx = Some c \<Longrightarrow> now st \<le> c \<Longrightarrow> c \<le> now st + max 0 d \<Longrightarrow>
   wait ctx d st s = Done (Some CancellationError) (st\<lparr>now := c\<rparr>) s"
  by (simp add: wait_def max_def)

lemma loop_Suc_Done:
  "driver_step P ctx st s = Done e st' s' \<Longrightarrow> PollUntilDone_loop (Suc fuel) P ctx st s = Some (e, st', s')"
  by simp

lemma loop_Suc_Continue:
  "driver_step P ctx st s = Continue st' s' \<Longrightarrow>
   PollUntilDone_loop (Suc fuel) P ctx st s = PollUntilDone_loop fuel P ctx st' s'"
  by simp

lemma loop_in_progress_then_succeeded:
  assumes "fst (invoke_times (Suc (length rs)) (operation P) ctx s) = map (\<lambda>x. (Some x, None)) (rs @ [r])"
    and "\<forall>x\<in>set rs. Status x = PollingStatusInProgress"
    and "Status r = PollingStatusSucceeded"
    and "\<forall>c. cancelled_at ctx = Some c \<longrightarrow>
           now st + sum_list (map (\<lambda>x. max 0 (suggested_interval P x)) rs) < c"
  shows "(fuel \<le> length rs \<longrightarrow> PollUntilDone_loop fuel P ctx st s = None)
       \<and> (length rs < fuel \<longrightarrow>
            (\<exists>st'. PollUntilDone_loop fuel P ctx st s
                     = Some (None, st', snd (invoke_times (Suc (length rs)) (operation P) ctx s))
                  \<and> polls st' = polls st + Suc (length rs) \<and> failures st' = 0
                  \<and> now st' = now st + sum_list (map (\<lambda>x. max 0 (suggested_interval P x)) rs)))"
  using assms(1,2,4)
proof (induction rs arbitrary: s st fuel)
  case Nil
  obtain s' where op: "operation P ctx s = ((Some r, None), s')"
    using Nil.prems(1)
    by (cases "operation P ctx s") (simp add: invoke_times_Suc del: invoke_times.simps(2))
  have nc: "\<not> cancelled ctx (now st)"
    using Nil.prems(3) by (intro not_cancelled_before [of ctx "now st"]) simp_all
  show ?case
  proof (cases fuel)
    case 0
    then show ?thesis by simp
  next
    case (Suc k)
    then show ?thesis
      using op by (simp add: step_succeeded [OF nc op assms(3)])
  qed
next
  case (Cons x xs)
  obtain s' where op: "operation P ctx s = ((Some x, None), s')"
    using Cons.prems(1)
    by (cases "operation P ctx s")
       (simp add: invoke_times_Suc [of "Suc (length xs)"] del: invoke_times.simps(2))
  have rest: "fst (invoke_times (Suc (length xs)) (operation P) ctx s')
                = map (\<lambda>x. (Some x, None)) (xs @ [r])"
    using Cons.prems(1) op
    by (simp add: invoke_times_Suc [of "Suc (length xs)"] del: invoke_times.simps(2))
  have store: "snd (invoke_times (Suc (length (x # xs))) (operation P) ctx s)
                = snd (invoke_times (Suc (length xs)) (operation P) ctx s')"
    using op by (simp add: invoke_times_Suc [of "Suc (length xs)"] del: invoke_times.simps(2))
  have x: "Status x = PollingStatusInProgress" using Cons.prems(2) by simp
  have xs: "\<forall>y\<in>set xs. Status y = PollingStatusInProgress" using Cons.prems(2) by simp
  have nonneg: "0 \<le> sum_list (map (\<lambda>x. max 0 (suggested_interval P x)) xs)"
    by (rule sum_list_nonneg) auto
  let ?total = "now st + sum_list (map (\<lambda>x. max 0 (suggested_interval P x)) (x # xs))"
  have late: "\<forall>c. cancelled_at ctx = Some c \<longrightarrow> ?total < c" using Cons.prems(3) by simp
  have nc: "\<not> cancelled ctx (now st)"
    using nonneg by (intro not_cancelled_before [OF late]) simp
  let ?st1 = "st\<lparr>polls := Suc (polls st), failures := 0, interval := suggested_interval P x\<rparr>"
  let ?st2 = "?st1\<lparr>now := now ?st1 + max 0 (suggested_interval P x)\<rparr>"
  have nc2: "\<not> cancelled ctx (now ?st1 + max 0 (suggested_interval P x))"
    using nonneg by (intro not_cancelled_before [OF late]) simp
  have step: "driver_step P ctx st s = Continue ?st2 s'"
    by (simp only: step_in_progress [OF nc op x] wait_elapses [OF nc2])
  have late2: "\<forall>c. cancelled_at ctx = Some c \<longrightarrow>
           now ?st2 + sum_list (map (\<lambda>x. max 0 (suggested_interval P x)) xs) < c"
    using Cons.prems(3) by (simp add: add.assoc)
  show ?case
  proof (cases fuel)
    case 0
    then show ?thesis by simp
  next
    case (Suc k)
    have sum: "now st + sum_list (map (\<lambda>x. max 0 (suggested_interval P x)) (x # xs))
                 = now ?st2 + sum_list (map (\<lambda>x. max 0 (suggested_interval P x)) xs)"
      by simp
    have polls: "polls st + Suc (length (x # xs)) = polls ?st2 + Suc (length xs)" by simp
    have loop: "PollUntilDone_loop (Suc k) P ctx st s = PollUntilDone_loop k P ctx ?st2 s'"
      by (rule loop_Suc_Continue [OF step])
    have len: "(Suc k \<le> length (x # xs)) = (k \<le> length xs)"
      "(length (x # xs) < Suc k) = (length xs < k)"
      by simp_all
    from Cons.IH [OF rest xs late2, of k]
    show ?thesis unfolding store Suc sum polls loop len .
  qed
qed

lemma loop_three_failures:
  assumes "\<forall>c. cancelled_at ctx = Some c \<longrightarrow> now st + 2 * max 0 (interval st) < c"
    and "fst (invoke_times 3 (operation P) ctx s) = [(r1, Some e1), (r2, Some e2), (r3, Some e3)]"
    and "is_QueryError e1" and "is_QueryError e2" and "is_QueryError e3"
    and "failures st = 0" and "failureAllowance P = 2"
  shows "(fuel < 3 \<longrightarrow> PollUntilDone_loop fuel P ctx st s = None)
       \<and> (3 \<le> fuel \<longrightarrow>
            (\<exists>st'. PollUntilDone_loop fuel P ctx st s
                     = Some (Some (TimeoutExceededError e3), st',
                             snd (invoke_times 3 (operation P) ctx s))
                  \<and> polls st' = polls st + 3))"
proof -
  define s1 where "s1 = snd (operation P ctx s)"
  define s2 where "s2 = snd (operation P ctx s1)"
  define s3 where "s3 = snd (operation P ctx s2)"
  have ops: "operation P ctx s = ((r1, Some e1), s1)" "operation P ctx s1 = ((r2, Some e2), s2)"
    "operation P ctx s2 = ((r3, Some e3), s3)"
    using assms(2) unfolding s1_def s2_def s3_def
    by (simp_all add: numeral_3_eq_3 invoke_times_Suc prod_eq_iff del: invoke_times.simps(2))
  have store: "snd (invoke_times 3 (operation P) ctx s) = s3"
    unfolding s1_def s2_def s3_def
    by (simp add: numeral_3_eq_3 invoke_times_Suc del: invoke_times.simps(2))
  let ?st1 = "st\<lparr>polls := Suc (polls st), failures := Suc (failures st)\<rparr>"
  let ?st1' = "?st1\<lparr>now := now ?st1 + max 0 (interval st)\<rparr>"
  let ?st2 = "?st1'\<lparr>polls := Suc (polls ?st1'), failures := Suc (failures ?st1')\<rparr>"
  let ?st2' = "?st2\<lparr>now := now ?st2 + max 0 (interval ?st1')\<rparr>"
  let ?st3 = "?st2'\<lparr>polls := Suc (polls ?st2'), failures := Suc (failures ?st2')\<rparr>"
  have nc0: "\<not> cancelled ctx (now st)"
    by (intro not_cancelled_before [OF assms(1)]) simp
  have nc1: "\<not> cancelled ctx (now ?st1 + max 0 (interval st))"
    by (intro not_cancelled_before [OF assms(1)]) simp
  have nc1': "\<not> cancelled ctx (now ?st1')"
    by (intro not_cancelled_before [OF assms(1)]) simp
  have nc2: "\<not> cancelled ctx (now ?st2 + max 0 (interval ?st1'))"
    by (intro not_cancelled_before [OF assms(1)]) simp
  have nc2': "\<not> cancelled ctx (now ?st2')"
    by (intro not_cancelled_before [OF assms(1)]) simp
  have w1: "wait ctx (interval st) ?st1 s1 = Continue ?st1' s1"
    by (rule wait_elapses [OF nc1])
  have w2: "wait ctx (interval ?st1') ?st2 s2 = Continue ?st2' s2"
    by (rule wait_elapses [OF nc2])
  have c1: "\<not> failureAllowance P < Suc (failures st)" using assms(6,7) by simp
  have c2: "\<not> failureAllowance P < Suc (failures ?st1')" using assms(6,7) by simp
  have c3: "failureAllowance P < Suc (failures ?st2')" using assms(6,7) by simp
  have step1: "driver_step P ctx st s = Continue ?st1' s1"
    by (simp only: step_query_error [OF nc0 ops(1) assms(3)] if_not_P [OF c1] w1)
  have step2: "driver_step P ctx ?st1' s1 = Continue ?st2' s2"
    by (simp only: step_query_error [OF nc1' ops(2) assms(4)] if_not_P [OF c2] w2)
  have step3: "driver_step P ctx ?st2' s2 = Done (Some (TimeoutExceededError e3)) ?st3 s3"
    by (simp only: step_query_error [OF nc2' ops(3) assms(5)] if_P [OF c3])
  have l1: "PollUntilDone_loop (Suc f) P ctx st s = PollUntilDone_loop f P ctx ?st1' s1" for f
    by (rule loop_Suc_Continue [OF step1])
  have l2: "PollUntilDone_loop (Suc f) P ctx ?st1' s1 = PollUntilDone_loop f P ctx ?st2' s2" for f
    by (rule loop_Suc_Continue [OF step2])
  have l3: "PollUntilDone_loop (Suc f) P ctx ?st2' s2
              = Some (Some (TimeoutExceededError e3), ?st3, s3)" for f
    by (rule loop_Suc_Done [OF step3])
  have early: "fuel < 3 \<longrightarrow> PollUntilDone_loop fuel P ctx st s = None"
  proof
    assume "fuel < 3"
    then consider "fuel = 0" | "fuel = Suc 0" | "fuel = Suc (Suc 0)" by arith
    then show "PollUntilDone_loop fuel P ctx st s = None"
    proof cases
      case 1
      then show ?thesis by simp
    next
      case 2
      then show ?thesis by (simp only: l1 PollUntilDone_loop.simps(1))
    next
      case 3
      then show ?thesis by (simp only: l1 l2 PollUntilDone_loop.simps(1))
    qed
  qed
  have late: "3 \<le> fuel \<longrightarrow>
            (\<exists>st'. PollUntilDone_loop fuel P ctx st s
                     = Some (Some (TimeoutExceededError e3), st', s3)
                  \<and> polls st' = polls st + 3)"
  proof
    assume "3 \<le> fuel"
    then obtain k where k: "fuel = Suc (Suc (Suc k))"
      by (metis Suc_le_D numeral_3_eq_3 Suc_le_mono)
    have "PollUntilDone_loop fuel P ctx st s = Some (Some (TimeoutExceededError e3), ?st3, s3)"
      unfolding k by (simp only: l1 l2 l3)
    moreover have "polls ?st3 = polls st + 3" by simp
    ultimately show "\<exists>st'. PollUntilDone_loop fuel P ctx st s
                     = Some (Some (TimeoutExceededError e3), st', s3)
                  \<and> polls st' = polls st + 3"
      by blast
  qed
  from early late show ?thesis unfolding store by blast
qed

lemma loop_cancelled_mid_wait:
  assumes "cancelled_at ctx = Some c"
    and "fst (invoke_times (Suc (length rs)) (operation P) ctx s) = map (\<lambda>x. (Some x, None)) (rs @ [r])"
    and "\<forall>x\<in>set (rs @ [r]). Status x = PollingStatusInProgress"
    and "now st + sum_list (map (\<lambda>x. max 0 (suggested_interval P x)) rs) < c"
    and "c \<le> now st + sum_list (map (\<lambda>x. max 0 (suggested_interval P x)) rs)
               + max 0 (suggested_interval P r)"
  shows "(fuel \<le> length rs \<longrightarrow> PollUntilDone_loop fuel P ctx st s = None)
       \<and> (length rs < fuel \<longrightarrow>
            (\<exists>st'. PollUntilDone_loop fuel P ctx st s
                     = Some (Some CancellationError, st',
                             snd (invoke_times (Suc (length rs)) (operation P) ctx s))
                  \<and> polls st' = polls st + Suc (length rs) \<and> now st' = c))"
  using assms(2-5)
proof (induction rs arbitrary: s st fuel)
  case Nil
  obtain s' where op: "operation P ctx s = ((Some r, None), s')"
    using Nil.prems(1)
    by (cases "operation P ctx s") (simp add: invoke_times_Suc del: invoke_times.simps(2))
  have store: "snd (invoke_times (Suc (length ([]::PollResult list))) (operation P) ctx s) = s'"
    using op by simp
  have nc: "\<not> cancelled ctx (now st)" using Nil.prems(3) assms(1) by (simp add: cancelled_def)
  have r: "Status r = PollingStatusInProgress" using Nil.prems(2) by simp
  let ?st1 = "st\<lparr>polls := Suc (polls st), failures := 0, interval := suggested_interval P r\<rparr>"
  have "wait ctx (suggested_interval P r) ?st1 s' = Done (Some CancellationError) (?st1\<lparr>now := c\<rparr>) s'"
    using Nil.prems(3,4) by (intro wait_interrupted [OF assms(1)]) simp_all
  then have step: "driver_step P ctx st s = Done (Some CancellationError) (?st1\<lparr>now := c\<rparr>) s'"
    by (simp only: step_in_progress [OF nc op r])
  show ?case
  proof (cases fuel)
    case 0
    then show ?thesis by simp
  next
    case (Suc k)
    show ?thesis unfolding store Suc by (simp add: step)
  qed
next
  case (Cons x xs)
  obtain s' where op: "operation P ctx s = ((Some x, None), s')"
    using Cons.prems(1)
    by (cases "operation P ctx s")
       (simp add: invoke_times_Suc [of "Suc (length xs)"] del: invoke_times.simps(2))
  have rest: "fst (invoke_times (Suc (length xs)) (operation P) ctx s')
                = map (\<lambda>x. (Some x, None)) (xs @ [r])"
    using Cons.prems(1) op
    by (simp add: invoke_times_Suc [of "Suc (length xs)"] del: invoke_times.simps(2))
  have store: "snd (invoke_times (Suc (length (x # xs))) (operation P) ctx s)
                = snd (invoke_times (Suc (length xs)) (operation P) ctx s')"
    using op by (simp add: invoke_times_Suc [of "Suc (length xs)"] del: invoke_times.simps(2))
  have x: "Status x = PollingStatusInProgress" using Cons.prems(2) by simp
  have xs: "\<forall>y\<in>set (xs @ [r]). Status y = PollingStatusInProgress" using Cons.prems(2) by simp
  have nonneg: "0 \<le> sum_list (map (\<lambda>x. max 0 (suggested_interval P x)) xs)"
    by (rule sum_list_nonneg) auto
  have nc: "\<not> cancelled ctx (now st)"
    using Cons.prems(3) nonneg assms(1) by (simp add: cancelled_def max_def split: if_splits)
  let ?st1 = "st\<lparr>polls := Suc (polls st), failures := 0, interval := suggested_interval P x\<rparr>"
  let ?st2 = "?st1\<lparr>now := now ?st1 + max 0 (suggested_interval P x)\<rparr>"
  have nc2: "\<not> cancelled ctx (now ?st1 + max 0 (suggested_interval P x))"
    using Cons.prems(3) nonneg assms(1) by (simp add: cancelled_def)
  have step: "driver_step P ctx st s = Continue ?st2 s'"
    by (simp only: step_in_progress [OF nc op x] wait_elapses [OF nc2])
  have t1: "now ?st2 + sum_list (map (\<lambda>x. max 0 (suggested_interval P x)) xs) < c"
    using Cons.prems(3) by simp
  have t2: "c \<le> now ?st2 + sum_list (map (\<lambda>x. max 0 (suggested_interval P x)) xs)
               + max 0 (suggested_interval P r)"
    using Cons.prems(4) by simp
  show ?case
  proof (cases fuel)
    case 0
    then show ?thesis by simp
  next
    case (Suc k)
    from Cons.IH [OF rest xs t1 t2, of k]
    show ?thesis unfolding store Suc by (simp add: step)
  qed
qed

section \<open>Verified properties\<close>

text \<open>
  Claim C1. When the status query succeeds and both the body and its
  \<^verbatim>\<open>ClusterMonitoringEnabled\<close> field are present, each of the two \<^verbatim>\<open>Poll\<close> methods
  returns a result and no error; the status of the result is \<^verbatim>\<open>Succeeded\<close> exactly when
  the flag is false and \<^verbatim>\<open>InProgress\<close> exactly when it is true.
\<close>

theorem Poll_status_iff_flag:
  assumes "GetMonitoringStatus c ctx cid w = ((resp, None), w')"
    and "resp_Model resp = Some model"
    and "ClusterMonitoringEnabled model = Some enabled"
  shows "\<exists>ra rm.
           fst (DisableAzureMonitorPoller_Poll ctx (NewDisableAzureMonitorPoller c cid, w))
             = (Some ra, None)
         \<and> fst (DisableMonitoringPoller_Poll ctx (NewDisableMonitoringPoller c cid, w))
             = (Some rm, None)
         \<and> (Status ra = PollingStatusSucceeded \<longleftrightarrow> enabled = False)
         \<and> (Status ra = PollingStatusInProgress \<longleftrightarrow> enabled = True)
         \<and> (Status rm = PollingStatusSucceeded \<longleftrightarrow> enabled = False)
         \<and> (Status rm = PollingStatusInProgress \<longleftrightarrow> enabled = True)"
  using assms by (simp add: AzureMonitor_Poll_eq Monitoring_Poll_eq New_defs)

theorem Poll_status_iff_flag_witness:
  "fst (DisableAzureMonitorPoller_Poll background
          (NewDisableAzureMonitorPoller scripted_client cluster, [monitoring (Some False)]))
     = (Some flag_false_result, None)
   \<and> fst (DisableMonitoringPoller_Poll background
          (NewDisableMonitoringPoller scripted_client cluster, [monitoring (Some False)]))
     = (Some flag_false_result, None)"
proof -
  have q: "GetMonitoringStatus scripted_client background cluster [monitoring (Some False)]
             = ((fst (monitoring (Some False)), None), [])"
    by (simp add: scripted_client_def monitoring_def)
  have m: "resp_Model (fst (monitoring (Some False)))
             = Some \<lparr>ClusterMonitoringEnabled = Some False, WorkspaceId = None\<rparr>"
    by (simp add: monitoring_def)
  from Poll_status_iff_flag [OF q m, of False]
  show ?thesis by (simp add: scenario_defs)
qed



text \<open>
  Claim C3. If the context is not cancelled by the time the waits between the polls
  have elapsed and the first \<open>N\<close> calls of the Poll Operation return \<open>N - 1\<close> results with status \<^verbatim>\<open>InProgress\<close> followed by one with status
  \<^verbatim>\<open>Succeeded\<close> (here \<open>N = Suc (length rs)\<close>), then the driver of the spec returns nil
  after exactly \<open>N\<close> polls: with fuel for fewer than \<open>N\<close> polls it has not returned, with
  fuel for \<open>N\<close> or more it returns nil, has counted \<open>N\<close> polls and leaves the store that
  \<open>N\<close> calls of the operation leave; the time it has spent is the sum of the waits
  suggested by the \<^verbatim>\<open>InProgress\<close> results.
\<close>

theorem PollUntilDone_returns_nil_after_N_polls:
  assumes "fst (invoke_times (Suc (length rs)) poll ctx s) = map (\<lambda>x. (Some x, None)) (rs @ [r])"
    and "\<forall>x\<in>set rs. Status x = PollingStatusInProgress"
    and "Status r = PollingStatusSucceeded"
    and "\<forall>c. cancelled_at ctx = Some c \<longrightarrow>
           sum_list (map (\<lambda>x. max 0 (suggested_interval (NewPoller poll d m) x)) rs) < c"
  shows "(fuel \<le> length rs \<longrightarrow> PollUntilDone fuel (NewPoller poll d m) ctx s = None)
       \<and> (length rs < fuel \<longrightarrow>
            (\<exists>st. PollUntilDone fuel (NewPoller poll d m) ctx s
                     = Some (None, st, snd (invoke_times (Suc (length rs)) poll ctx s))
                 \<and> polls st = Suc (length rs)
                 \<and> now st = sum_list (map (\<lambda>x. max 0 (suggested_interval (NewPoller poll d m) x)) rs)))"
proof -
  have op: "operation (NewPoller poll d m) = poll" by (simp add: NewPoller_def)
  have n0: "now (initial_state (NewPoller poll d m)) = 0"
    "polls (initial_state (NewPoller poll d m)) = 0"
    by (simp_all add: initial_state_def)
  from loop_in_progress_then_succeeded [of rs "NewPoller poll d m" ctx s r
      "initial_state (NewPoller poll d m)" fuel] assms
  show ?thesis unfolding PollUntilDone_def op n0 by auto
qed

theorem PollUntilDone_returns_nil_after_N_polls_witness:
  "\<exists>st. PollUntilDone 3 (NewPoller DisableMonitoringPoller_Poll (10 * Second) 3) background
          (NewDisableMonitoringPoller scripted_client cluster,
           [monitoring (Some True), monitoring (Some True), monitoring (Some False)])
        = Some (None, st, (NewDisableMonitoringPoller scripted_client cluster, []))
      \<and> polls st = 3 \<and> now st = 20000000000"
proof -
  let ?s = "(NewDisableMonitoringPoller scripted_client cluster,
             [monitoring (Some True), monitoring (Some True), monitoring (Some False)])"
  have c: "\<forall>c. cancelled_at background = Some c \<longrightarrow>
      sum_list (map (\<lambda>x. max 0 (suggested_interval
         (NewPoller DisableMonitoringPoller_Poll (10 * Second) 3) x))
         [flag_true_result, flag_true_result]) < c"
    by (simp add: background_def)
  have run: "fst (invoke_times (Suc (length [flag_true_result, flag_true_result]))
                 DisableMonitoringPoller_Poll background ?s)
      = map (\<lambda>x. (Some x, None)) ([flag_true_result, flag_true_result] @ [flag_false_result])"
    by (simp add: scenario_defs)
  have store: "snd (invoke_times (Suc (length [flag_true_result, flag_true_result]))
                 DisableMonitoringPoller_Poll background ?s)
      = (NewDisableMonitoringPoller scripted_client cluster, [])"
    by (simp add: scenario_defs)
  have st: "\<forall>x\<in>set [flag_true_result, flag_true_result]. Status x = PollingStatusInProgress"
    by (simp add: flag_true_result_def)
  have fin: "Status flag_false_result = PollingStatusSucceeded"
    by (simp add: flag_false_result_def)
  have t: "sum_list (map (\<lambda>x. max 0 (suggested_interval
         (NewPoller DisableMonitoringPoller_Poll (10 * Second) 3) x))
         [flag_true_result, flag_true_result]) = 20000000000"
    by (simp add: suggested_interval_def flag_true_result_def)
  from PollUntilDone_returns_nil_after_N_polls [OF run st fin c, of 3]
  show ?thesis unfolding store t by (simp add: numeral_3_eq_3)
qed

text \<open>
  Claim C4. When \<^verbatim>\<open>GetMonitoringStatus\<close> returns an error, each \<^verbatim>\<open>Poll\<close> returns a
  nil result together with an error built from the cluster id and the error of the query;
  no result, and so no status \<^verbatim>\<open>Failed\<close>, is produced.
\<close>

theorem Poll_query_error:
  assumes "GetMonitoringStatus c ctx cid w = ((resp, Some e), w')"
  shows "fst (DisableAzureMonitorPoller_Poll ctx (NewDisableAzureMonitorPoller c cid, w))
           = (None, Some (StatusQueryError
                (''retrieving Azure Monitor Status for '' @ cid @ '': '' @ e)))
       \<and> fst (DisableMonitoringPoller_Poll ctx (NewDisableMonitoringPoller c cid, w))
           = (None, Some (StatusQueryError
                (''retrieving Monitoring Status for '' @ cid @ '': '' @ e)))"
  using assms by (simp add: AzureMonitor_Poll_eq Monitoring_Poll_eq New_defs)

theorem Poll_query_error_witness:
  "fst (DisableAzureMonitorPoller_Poll background
          (NewDisableAzureMonitorPoller scripted_client ''c1'', [query_failure ''EOF'']))
     = (None, Some (StatusQueryError ''retrieving Azure Monitor Status for c1: EOF''))
   \<and> fst (DisableMonitoringPoller_Poll background
          (NewDisableMonitoringPoller scripted_client ''c1'', [query_failure ''EOF'']))
     = (None, Some (StatusQueryError ''retrieving Monitoring Status for c1: EOF''))"
  using Poll_query_error [of scripted_client background "''c1''" "[query_failure ''EOF'']"
      "fst (query_failure ''EOF'')" "''EOF''" "[]"]
  by (simp add: scripted_client_def query_failure_def)

text \<open>
  Claim C5. Every result returned by either \<^verbatim>\<open>Poll\<close>, at any call of any number
  of successive calls and from any store, carries the poll interval \<^verbatim>\<open>10 * time.Second\<close>,
  that is 10000000000 nanoseconds.
\<close>

theorem Poll_interval_constant:
  assumes "(Some r, e) \<in> set (fst (invoke_times n DisableAzureMonitorPoller_Poll ctx s))
         \<or> (Some r, e) \<in> set (fst (invoke_times n DisableMonitoringPoller_Poll ctx t))"
  shows "PollInterval r = 10 * Second \<and> PollInterval r = 10000000000"
proof -
  have "PollInterval r = 10 * Second"
    using assms
      invoke_times_results [of DisableAzureMonitorPoller_Poll ctx "\<lambda>r. PollInterval r = 10 * Second" r e n s]
      invoke_times_results [of DisableMonitoringPoller_Poll ctx "\<lambda>r. PollInterval r = 10 * Second" r e n t]
      AzureMonitor_Poll_interval Monitoring_Poll_interval
    by blast
  then show ?thesis by (simp add: Second_def)
qed

theorem Poll_interval_constant_witness:
  "(Some flag_true_result, None) \<in> set (fst (invoke_times 2 DisableAzureMonitorPoller_Poll background
       (NewDisableAzureMonitorPoller scripted_client cluster,
        [monitoring (Some False), monitoring (Some True)])))
   \<and> PollInterval flag_true_result = 10 * Second
   \<and> PollInterval flag_true_result = 10000000000"
proof -
  have h: "(Some flag_true_result, None) \<in> set (fst (invoke_times 2 DisableAzureMonitorPoller_Poll
       background (NewDisableAzureMonitorPoller scripted_client cluster,
        [monitoring (Some False), monitoring (Some True)])))"
    by (simp add: numeral_2_eq_2 DisableAzureMonitorPoller_Poll_def New_defs scripted_client_def
          monitoring_def flag_true_result_def Second_def)
  from Poll_interval_constant [OF disjI1 [OF h]] h show ?thesis by simp
qed

text \<open>
  Claim C6. With an allowance of 2 and a context that is not cancelled by the end of the
  two waits between the polls, if the first three calls of the Poll Operation all fail
  with the error of a failed query, the driver of the spec returns a
  \<^verbatim>\<open>TimeoutExceededError\<close> carrying the third error after exactly three polls (with fuel
  for fewer it has not returned). Whenever a poll returns a result, the step of the driver
  leaves the count of consecutive failures at zero. In the scenario below two failures, a
  result and two more failures are all tolerated, and the third failure after the result
  is the one that is fatal.
\<close>

theorem three_failures_exceed_allowance_of_two:
  assumes "\<forall>c. cancelled_at ctx = Some c \<longrightarrow> 2 * max 0 d < c"
    and "fst (invoke_times 3 poll ctx s) = [(r1, Some e1), (r2, Some e2), (r3, Some e3)]"
    and "is_QueryError e1" and "is_QueryError e2" and "is_QueryError e3"
  shows "(fuel < 3 \<longrightarrow> PollUntilDone fuel (NewPoller poll d 2) ctx s = None)
       \<and> (3 \<le> fuel \<longrightarrow>
            (\<exists>st. PollUntilDone fuel (NewPoller poll d 2) ctx s
                     = Some (Some (TimeoutExceededError e3), st, snd (invoke_times 3 poll ctx s))
                 \<and> polls st = 3))
       \<and> (\<forall>st t x t'. \<not> cancelled ctx (now st) \<and> poll ctx t = ((Some x, None), t') \<longrightarrow>
            (\<exists>e st'. (driver_step (NewPoller poll d 2) ctx st t = Done e st' t'
                       \<or> driver_step (NewPoller poll d 2) ctx st t = Continue st' t')
                    \<and> failures st' = 0))"
proof -
  have op: "operation (NewPoller poll d 2) = poll" by (simp add: NewPoller_def)
  have al: "failureAllowance (NewPoller poll d 2) = 2" by (simp add: NewPoller_def)
  have f0: "failures (initial_state (NewPoller poll d 2)) = 0" by (simp add: initial_state_def)
  have p0: "polls (initial_state (NewPoller poll d 2)) = 0" by (simp add: initial_state_def)
  have t0: "now (initial_state (NewPoller poll d 2)) = 0"
    "interval (initial_state (NewPoller poll d 2)) = d"
    by (simp_all add: initial_state_def NewPoller_def)
  have run: "(fuel < 3 \<longrightarrow> PollUntilDone fuel (NewPoller poll d 2) ctx s = None)
       \<and> (3 \<le> fuel \<longrightarrow>
            (\<exists>st. PollUntilDone fuel (NewPoller poll d 2) ctx s
                     = Some (Some (TimeoutExceededError e3), st, snd (invoke_times 3 poll ctx s))
                 \<and> polls st = 3))"
    using loop_three_failures [of ctx "initial_state (NewPoller poll d 2)" "NewPoller poll d 2"
        s r1 e1 r2 e2 r3 e3 fuel] assms
    unfolding PollUntilDone_def op p0 t0 using f0 al by simp
  have reset: "\<exists>e st'. (driver_step (NewPoller poll d 2) ctx st t = Done e st' t'
                       \<or> driver_step (NewPoller poll d 2) ctx st t = Continue st' t')
                    \<and> failures st' = 0"
    if "\<not> cancelled ctx (now st)" and "poll ctx t = ((Some x, None), t')" for st t x t'
    using step_result_resets_failures [of ctx st "NewPoller poll d 2" t x t'] that
    unfolding op by blast
  from run reset show ?thesis by blast
qed

theorem three_failures_exceed_allowance_of_two_witness:
  "(\<exists>st. PollUntilDone 3 (NewPoller DisableAzureMonitorPoller_Poll (10 * Second) 2) background
          (NewDisableAzureMonitorPoller scripted_client ''c1'',
           [query_failure ''reset'', query_failure ''refused'', query_failure ''EOF''])
        = Some (Some (TimeoutExceededError
                        (StatusQueryError ''retrieving Azure Monitor Status for c1: EOF'')),
                st, (NewDisableAzureMonitorPoller scripted_client ''c1'', []))
      \<and> polls st = 3)
   \<and> (\<exists>st. PollUntilDone 6 (NewPoller DisableAzureMonitorPoller_Poll (10 * Second) 2) background
          (NewDisableAzureMonitorPoller scripted_client ''c1'',
           [query_failure ''e1'', query_failure ''e2'', monitoring (Some True),
            query_failure ''e4'', query_failure ''e5'', query_failure ''e6''])
        = Some (Some (TimeoutExceededError
                        (StatusQueryError ''retrieving Azure Monitor Status for c1: e6'')),
                st, (NewDisableAzureMonitorPoller scripted_client ''c1'', []))
      \<and> polls st = 6 \<and> failures st = 3)"
proof -
  let ?s = "(NewDisableAzureMonitorPoller scripted_client ''c1'',
             [query_failure ''reset'', query_failure ''refused'', query_failure ''EOF''])"
  have c: "\<forall>c. cancelled_at background = Some c \<longrightarrow> 2 * max 0 (10 * Second) < c"
    by (simp add: background_def)
  have run: "fst (invoke_times 3 DisableAzureMonitorPoller_Poll background ?s)
      = [(None, Some (StatusQueryError ''retrieving Azure Monitor Status for c1: reset'')),
         (None, Some (StatusQueryError ''retrieving Azure Monitor Status for c1: refused'')),
         (None, Some (StatusQueryError ''retrieving Azure Monitor Status for c1: EOF''))]"
    by (simp add: numeral_3_eq_3 scenario_defs)
  have store: "snd (invoke_times 3 DisableAzureMonitorPoller_Poll background ?s)
      = (NewDisableAzureMonitorPoller scripted_client ''c1'', [])"
    by (simp add: numeral_3_eq_3 scenario_defs)
  have reset: "\<exists>st. PollUntilDone 6 (NewPoller DisableAzureMonitorPoller_Poll (10 * Second) 2)
          background
          (NewDisableAzureMonitorPoller scripted_client ''c1'',
           [query_failure ''e1'', query_failure ''e2'', monitoring (Some True),
            query_failure ''e4'', query_failure ''e5'', query_failure ''e6''])
        = Some (Some (TimeoutExceededError
                        (StatusQueryError ''retrieving Azure Monitor Status for c1: e6'')),
                st, (NewDisableAzureMonitorPoller scripted_client ''c1'', []))
      \<and> polls st = 6 \<and> failures st = 3"
    by (simp add: PollUntilDone_def initial_state_def NewPoller_def driver_step_def wait_def
          cancelled_def suggested_interval_def scenario_defs eval_nat_numeral)
  from three_failures_exceed_allowance_of_two [OF c run, of 3] reset
  show ?thesis unfolding store by simp
qed

text \<open>
  Claim C7. Let the context be cancelled at instant \<open>c\<close>. If the polls so far all
  returned \<^verbatim>\<open>InProgress\<close> and \<open>c\<close> falls in the wait that follows the last of them, the
  driver of the spec returns a \<^verbatim>\<open>CancellationError\<close> at \<open>c\<close>, having issued exactly the
  polls made before and left the store as the last of them left it. From any state of
  the driver, a cancellation during the wait that follows an \<^verbatim>\<open>InProgress\<close> result or a
  tolerated failed query returns the error after that one poll, and a cancellation seen
  immediately before a poll returns the error without polling. A
  \<^verbatim>\<open>CancellationError\<close> is none of the other errors.
\<close>

theorem cancellation_during_wait:
  assumes "cancelled_at ctx = Some c"
  shows "(fst (invoke_times (Suc (length rs)) poll ctx s) = map (\<lambda>x. (Some x, None)) (rs @ [r])
          \<and> (\<forall>x\<in>set (rs @ [r]). Status x = PollingStatusInProgress)
          \<and> sum_list (map (\<lambda>x. max 0 (suggested_interval (NewPoller poll d m) x)) rs) < c
          \<and> c \<le> sum_list (map (\<lambda>x. max 0 (suggested_interval (NewPoller poll d m) x)) rs)
                  + max 0 (suggested_interval (NewPoller poll d m) r)
          \<and> length rs < fuel \<longrightarrow>
            (\<exists>st. PollUntilDone fuel (NewPoller poll d m) ctx s
                     = Some (Some CancellationError, st, snd (invoke_times (Suc (length rs)) poll ctx s))
                 \<and> polls st = Suc (length rs) \<and> now st = c))
       \<and> (now st < c \<and> poll ctx t = ((Some x, None), t') \<and> Status x = PollingStatusInProgress
          \<and> c \<le> now st + max 0 (suggested_interval (NewPoller poll d m) x) \<longrightarrow>
            PollUntilDone_loop (Suc k) (NewPoller poll d m) ctx st t
              = Some (Some CancellationError,
                      st\<lparr>polls := Suc (polls st), failures := 0,
                         interval := suggested_interval (NewPoller poll d m) x, now := c\<rparr>, t'))
       \<and> (now st < c \<and> poll ctx t = ((res, Some e), t') \<and> is_QueryError e
          \<and> Suc (failures st) \<le> m \<and> c \<le> now st + max 0 (interval st) \<longrightarrow>
            PollUntilDone_loop (Suc k) (NewPoller poll d m) ctx st t
              = Some (Some CancellationError,
                      st\<lparr>polls := Suc (polls st), failures := Suc (failures st), now := c\<rparr>, t'))
       \<and> (c \<le> now st \<longrightarrow>
            PollUntilDone_loop (Suc k) (NewPoller poll d m) ctx st t
              = Some (Some CancellationError, st, t))
       \<and> (\<forall>e. CancellationError \<noteq> TimeoutExceededError e)
       \<and> (\<forall>e. CancellationError \<noteq> MalformedResponseError e)"
proof -
  let ?P = "NewPoller poll d m"
  have op: "operation ?P = poll" by (simp add: NewPoller_def)
  have al: "failureAllowance ?P = m" by (simp add: NewPoller_def)
  have n0: "now (initial_state ?P) = 0" "polls (initial_state ?P) = 0"
    by (simp_all add: initial_state_def)
  have after_result: "\<exists>st. PollUntilDone fuel ?P ctx s
                     = Some (Some CancellationError, st, snd (invoke_times (Suc (length rs)) poll ctx s))
                 \<and> polls st = Suc (length rs) \<and> now st = c"
    if "fst (invoke_times (Suc (length rs)) poll ctx s) = map (\<lambda>x. (Some x, None)) (rs @ [r])"
      and "\<forall>x\<in>set (rs @ [r]). Status x = PollingStatusInProgress"
      and "sum_list (map (\<lambda>x. max 0 (suggested_interval ?P x)) rs) < c"
      and "c \<le> sum_list (map (\<lambda>x. max 0 (suggested_interval ?P x)) rs)
                  + max 0 (suggested_interval ?P r)"
      and "length rs < fuel"
    using loop_cancelled_mid_wait [of ctx c rs ?P s r "initial_state ?P" fuel] assms that
    unfolding PollUntilDone_def op n0 by simp
  have after_failure: "PollUntilDone_loop (Suc k) ?P ctx st t
              = Some (Some CancellationError,
                      st\<lparr>polls := Suc (polls st), failures := Suc (failures st), now := c\<rparr>, t')"
    if "now st < c" and "poll ctx t = ((res, Some e), t')" and "is_QueryError e"
      and "Suc (failures st) \<le> m" and "c \<le> now st + max 0 (interval st)"
  proof -
    have nc: "\<not> cancelled ctx (now st)" using that(1) assms by (simp add: cancelled_def)
    have opt: "operation ?P ctx t = ((res, Some e), t')" using that(2) op by simp
    let ?st1 = "st\<lparr>polls := Suc (polls st), failures := Suc (failures st)\<rparr>"
    have "wait ctx (interval st) ?st1 t' = Done (Some CancellationError) (?st1\<lparr>now := c\<rparr>) t'"
      using that(1,5) by (intro wait_interrupted [OF assms]) simp_all
    then have "driver_step ?P ctx st t = Done (Some CancellationError) (?st1\<lparr>now := c\<rparr>) t'"
      using that(4) al by (simp add: step_query_error [OF nc opt that(3)])
    then show ?thesis by simp
  qed
  have after_in_progress: "PollUntilDone_loop (Suc k) ?P ctx st t
              = Some (Some CancellationError,
                      st\<lparr>polls := Suc (polls st), failures := 0,
                         interval := suggested_interval ?P x, now := c\<rparr>, t')"
    if "now st < c" and "poll ctx t = ((Some x, None), t')"
      and "Status x = PollingStatusInProgress"
      and "c \<le> now st + max 0 (suggested_interval ?P x)"
  proof -
    have nc: "\<not> cancelled ctx (now st)" using that(1) assms by (simp add: cancelled_def)
    have opt: "operation ?P ctx t = ((Some x, None), t')" using that(2) op by simp
    let ?st1 = "st\<lparr>polls := Suc (polls st), failures := 0, interval := suggested_interval ?P x\<rparr>"
    have "wait ctx (suggested_interval ?P x) ?st1 t'
            = Done (Some CancellationError) (?st1\<lparr>now := c\<rparr>) t'"
      using that(1,4) by (intro wait_interrupted [OF assms]) simp_all
    then have "driver_step ?P ctx st t = Done (Some CancellationError) (?st1\<lparr>now := c\<rparr>) t'"
      by (simp only: step_in_progress [OF nc opt that(3)])
    then show ?thesis by simp
  qed
  have before_poll: "PollUntilDone_loop (Suc k) ?P ctx st t = Some (Some CancellationError, st, t)"
    if "c \<le> now st"
  proof -
    have "cancelled ctx (now st)" using that assms by (simp add: cancelled_def)
    then show ?thesis by (simp add: step_cancelled)
  qed
  from after_result after_in_progress after_failure before_poll show ?thesis by simp
qed

theorem cancellation_during_wait_witness:
  "\<exists>st. PollUntilDone 5 (NewPoller DisableAzureMonitorPoller_Poll (10 * Second) 3) cancelled_after_15s
          (NewDisableAzureMonitorPoller scripted_client cluster,
           [monitoring (Some True), monitoring (Some True), monitoring (Some False)])
        = Some (Some CancellationError, st,
                (NewDisableAzureMonitorPoller scripted_client cluster, [monitoring (Some False)]))
      \<and> polls st = 2 \<and> now st = 15000000000"
proof -
  let ?s = "(NewDisableAzureMonitorPoller scripted_client cluster,
             [monitoring (Some True), monitoring (Some True), monitoring (Some False)])"
  have c: "cancelled_at cancelled_after_15s = Some 15000000000"
    by (simp add: cancelled_after_15s_def)
  have run: "fst (invoke_times (Suc (length [flag_true_result]))
                 DisableAzureMonitorPoller_Poll cancelled_after_15s ?s)
      = map (\<lambda>x. (Some x, None)) ([flag_true_result] @ [flag_true_result])"
    by (simp add: scenario_defs)
  have store: "snd (invoke_times (Suc (length [flag_true_result]))
                 DisableAzureMonitorPoller_Poll cancelled_after_15s ?s)
      = (NewDisableAzureMonitorPoller scripted_client cluster, [monitoring (Some False)])"
    by (simp add: scenario_defs)
  have st: "\<forall>x\<in>set ([flag_true_result] @ [flag_true_result]). Status x = PollingStatusInProgress"
    by (simp add: flag_true_result_def)
  have t: "sum_list (map (\<lambda>x. max 0 (suggested_interval
               (NewPoller DisableAzureMonitorPoller_Poll (10 * Second) 3) x)) [flag_true_result])
            = 10000000000"
    by (simp add: suggested_interval_def flag_true_result_def)
  have d: "max 0 (suggested_interval (NewPoller DisableAzureMonitorPoller_Poll (10 * Second) 3)
             flag_true_result) = 10000000000"
    by (simp add: suggested_interval_def flag_true_result_def)
  from cancellation_during_wait [OF c, of "[flag_true_result]" DisableAzureMonitorPoller_Poll ?s
      flag_true_result "10 * Second" 3 5, THEN conjunct1] run st
  show ?thesis unfolding store t d by (simp add: numeral_2_eq_2)
qed

text \<open>
  Claim C8. On the same client, cluster id, context and world the two \<^verbatim>\<open>Poll\<close>
  methods return the same result (status, poll interval and response), fail in the same
  cases with errors that differ only in the leading words of the message, both leave the
  world as the one query \<^verbatim>\<open>GetMonitoringStatus\<close> on that client and cluster id leaves it,
  and both leave their receiver as it was.
\<close>

theorem Poll_variants_agree:
  "fst (fst (DisableAzureMonitorPoller_Poll ctx (NewDisableAzureMonitorPoller c cid, w)))
     = fst (fst (DisableMonitoringPoller_Poll ctx (NewDisableMonitoringPoller c cid, w)))
   \<and> (\<exists>body.
         snd (fst (DisableAzureMonitorPoller_Poll ctx (NewDisableAzureMonitorPoller c cid, w)))
           = map_option (map_message (\<lambda>rest. ''retrieving Azure Monitor Status for '' @ rest)) body
       \<and> snd (fst (DisableMonitoringPoller_Poll ctx (NewDisableMonitoringPoller c cid, w)))
           = map_option (map_message (\<lambda>rest. ''retrieving Monitoring Status for '' @ rest)) body)
   \<and> snd (snd (DisableAzureMonitorPoller_Poll ctx (NewDisableAzureMonitorPoller c cid, w)))
       = snd (GetMonitoringStatus c ctx cid w)
   \<and> snd (snd (DisableMonitoringPoller_Poll ctx (NewDisableMonitoringPoller c cid, w)))
       = snd (GetMonitoringStatus c ctx cid w)
   \<and> fst (snd (DisableAzureMonitorPoller_Poll ctx (NewDisableAzureMonitorPoller c cid, w)))
       = NewDisableAzureMonitorPoller c cid
   \<and> fst (snd (DisableMonitoringPoller_Poll ctx (NewDisableMonitoringPoller c cid, w)))
       = NewDisableMonitoringPoller c cid"
proof -
  obtain resp err w' where q: "GetMonitoringStatus c ctx cid w = ((resp, err), w')"
    by (metis surj_pair)
  have a: "DisableAzureMonitorPoller_Poll ctx (NewDisableAzureMonitorPoller c cid, w) =
      (fst (DisableAzureMonitorPoller_Poll ctx (NewDisableAzureMonitorPoller c cid, w)),
       (NewDisableAzureMonitorPoller c cid, w'))"
    using q by (simp add: AzureMonitor_Poll_eq New_defs)
  have m: "DisableMonitoringPoller_Poll ctx (NewDisableMonitoringPoller c cid, w) =
      (fst (DisableMonitoringPoller_Poll ctx (NewDisableMonitoringPoller c cid, w)),
       (NewDisableMonitoringPoller c cid, w'))"
    using q by (simp add: Monitoring_Poll_eq New_defs)
  have r: "fst (fst (DisableAzureMonitorPoller_Poll ctx (NewDisableAzureMonitorPoller c cid, w)))
     = fst (fst (DisableMonitoringPoller_Poll ctx (NewDisableMonitoringPoller c cid, w)))"
    using q by (simp add: AzureMonitor_Poll_eq Monitoring_Poll_eq New_defs split: option.splits)
  let ?body = "case err of
       Some e \<Rightarrow> Some (StatusQueryError (cid @ '': '' @ e))
     | None \<Rightarrow>
        (case resp_Model resp of
           None \<Rightarrow> Some (ModelNilError (cid @ '': `model` was nil''))
         | Some model \<Rightarrow>
            (case ClusterMonitoringEnabled model of
               None \<Rightarrow> Some (FieldNilError (cid @ '': `model.ClusterMonitoringEnabled` was nil''))
             | Some enabled \<Rightarrow> None))"
  have ea: "snd (fst (DisableAzureMonitorPoller_Poll ctx (NewDisableAzureMonitorPoller c cid, w)))
           = map_option (map_message (\<lambda>rest. ''retrieving Azure Monitor Status for '' @ rest)) ?body"
    using q by (simp add: AzureMonitor_Poll_eq New_defs split: option.splits)
  have em: "snd (fst (DisableMonitoringPoller_Poll ctx (NewDisableMonitoringPoller c cid, w)))
           = map_option (map_message (\<lambda>rest. ''retrieving Monitoring Status for '' @ rest)) ?body"
    using q by (simp add: Monitoring_Poll_eq New_defs split: option.splits)
  have w: "snd (GetMonitoringStatus c ctx cid w) = w'" using q by simp
  from ea em have "\<exists>body.
         snd (fst (DisableAzureMonitorPoller_Poll ctx (NewDisableAzureMonitorPoller c cid, w)))
           = map_option (map_message (\<lambda>rest. ''retrieving Azure Monitor Status for '' @ rest)) body
       \<and> snd (fst (DisableMonitoringPoller_Poll ctx (NewDisableMonitoringPoller c cid, w)))
           = map_option (map_message (\<lambda>rest. ''retrieving Monitoring Status for '' @ rest)) body"
    by blast
  moreover have "snd (snd (DisableAzureMonitorPoller_Poll ctx (NewDisableAzureMonitorPoller c cid, w))) = w'"
    by (subst a) simp
  moreover have "snd (snd (DisableMonitoringPoller_Poll ctx (NewDisableMonitoringPoller c cid, w))) = w'"
    by (subst m) simp
  moreover have "fst (snd (DisableAzureMonitorPoller_Poll ctx (NewDisableAzureMonitorPoller c cid, w)))
       = NewDisableAzureMonitorPoller c cid"
    by (subst a) simp
  moreover have "fst (snd (DisableMonitoringPoller_Poll ctx (NewDisableMonitoringPoller c cid, w)))
       = NewDisableMonitoringPoller c cid"
    by (subst m) simp
  ultimately show ?thesis using r w by simp
qed

theorem Poll_variants_agree_witness:
  "fst (fst (DisableAzureMonitorPoller_Poll background
               (NewDisableAzureMonitorPoller scripted_client cluster, [monitoring (Some False)])))
     = Some flag_false_result
   \<and> fst (fst (DisableMonitoringPoller_Poll background
               (NewDisableMonitoringPoller scripted_client cluster, [monitoring (Some False)])))
     = Some flag_false_result"
  using Poll_variants_agree [of background scripted_client cluster "[monitoring (Some False)]"]
  by (simp add: scenario_defs)

text \<open>
  Claim C9. If the status query leaves the world unchanged, any number of
  successive calls of \<^verbatim>\<open>Poll\<close> return the same pair each time and leave receiver and world
  as they were. Two calls that receive the same answer from the query return the same
  result, whatever else differs. In every case the receiver after the call is the
  receiver before it.
\<close>

theorem Poll_idempotent:
  "(snd (GetMonitoringStatus c ctx cid w) = w \<longrightarrow>
      invoke_times n DisableAzureMonitorPoller_Poll ctx (NewDisableAzureMonitorPoller c cid, w)
        = (replicate n (fst (DisableAzureMonitorPoller_Poll ctx (NewDisableAzureMonitorPoller c cid, w))),
           (NewDisableAzureMonitorPoller c cid, w))
    \<and> invoke_times n DisableMonitoringPoller_Poll ctx (NewDisableMonitoringPoller c cid, w)
        = (replicate n (fst (DisableMonitoringPoller_Poll ctx (NewDisableMonitoringPoller c cid, w))),
           (NewDisableMonitoringPoller c cid, w)))
   \<and> (fst (GetMonitoringStatus c ctx cid w) = fst (GetMonitoringStatus c' ctx' cid' v) \<longrightarrow>
      fst (fst (DisableAzureMonitorPoller_Poll ctx (NewDisableAzureMonitorPoller c cid, w)))
        = fst (fst (DisableAzureMonitorPoller_Poll ctx' (NewDisableAzureMonitorPoller c' cid', v)))
    \<and> fst (fst (DisableMonitoringPoller_Poll ctx (NewDisableMonitoringPoller c cid, w)))
        = fst (fst (DisableMonitoringPoller_Poll ctx' (NewDisableMonitoringPoller c' cid', v))))
   \<and> fst (snd (DisableAzureMonitorPoller_Poll ctx (pa, w))) = pa
   \<and> fst (snd (DisableMonitoringPoller_Poll ctx (pm, w))) = pm"
proof -
  obtain resp err w' where q: "GetMonitoringStatus c ctx cid w = ((resp, err), w')"
    by (metis surj_pair)
  have fixed: "snd (GetMonitoringStatus c ctx cid w) = w \<longrightarrow>
      invoke_times n DisableAzureMonitorPoller_Poll ctx (NewDisableAzureMonitorPoller c cid, w)
        = (replicate n (fst (DisableAzureMonitorPoller_Poll ctx (NewDisableAzureMonitorPoller c cid, w))),
           (NewDisableAzureMonitorPoller c cid, w))
    \<and> invoke_times n DisableMonitoringPoller_Poll ctx (NewDisableMonitoringPoller c cid, w)
        = (replicate n (fst (DisableMonitoringPoller_Poll ctx (NewDisableMonitoringPoller c cid, w))),
           (NewDisableMonitoringPoller c cid, w))"
  proof
    assume "snd (GetMonitoringStatus c ctx cid w) = w"
    with q have q': "GetMonitoringStatus c ctx cid w = ((resp, err), w)" by simp
    have a: "DisableAzureMonitorPoller_Poll ctx (NewDisableAzureMonitorPoller c cid, w) =
      (fst (DisableAzureMonitorPoller_Poll ctx (NewDisableAzureMonitorPoller c cid, w)),
       (NewDisableAzureMonitorPoller c cid, w))"
      using q' by (simp add: AzureMonitor_Poll_eq New_defs)
    have m: "DisableMonitoringPoller_Poll ctx (NewDisableMonitoringPoller c cid, w) =
      (fst (DisableMonitoringPoller_Poll ctx (NewDisableMonitoringPoller c cid, w)),
       (NewDisableMonitoringPoller c cid, w))"
      using q' by (simp add: Monitoring_Poll_eq New_defs)
    from invoke_times_fixed [of DisableAzureMonitorPoller_Poll ctx
           "(NewDisableAzureMonitorPoller c cid, w)" _ n, OF a]
         invoke_times_fixed [of DisableMonitoringPoller_Poll ctx
           "(NewDisableMonitoringPoller c cid, w)" _ n, OF m]
    show "invoke_times n DisableAzureMonitorPoller_Poll ctx (NewDisableAzureMonitorPoller c cid, w)
        = (replicate n (fst (DisableAzureMonitorPoller_Poll ctx (NewDisableAzureMonitorPoller c cid, w))),
           (NewDisableAzureMonitorPoller c cid, w))
    \<and> invoke_times n DisableMonitoringPoller_Poll ctx (NewDisableMonitoringPoller c cid, w)
        = (replicate n (fst (DisableMonitoringPoller_Poll ctx (NewDisableMonitoringPoller c cid, w))),
           (NewDisableMonitoringPoller c cid, w))"
      by simp
  qed
  obtain resp2 err2 v' where q2: "GetMonitoringStatus c' ctx' cid' v = ((resp2, err2), v')"
    by (metis surj_pair)
  have same: "fst (GetMonitoringStatus c ctx cid w) = fst (GetMonitoringStatus c' ctx' cid' v) \<longrightarrow>
      fst (fst (DisableAzureMonitorPoller_Poll ctx (NewDisableAzureMonitorPoller c cid, w)))
        = fst (fst (DisableAzureMonitorPoller_Poll ctx' (NewDisableAzureMonitorPoller c' cid', v)))
    \<and> fst (fst (DisableMonitoringPoller_Poll ctx (NewDisableMonitoringPoller c cid, w)))
        = fst (fst (DisableMonitoringPoller_Poll ctx' (NewDisableMonitoringPoller c' cid', v)))"
    using q q2 by (simp add: AzureMonitor_Poll_eq Monitoring_Poll_eq New_defs split: option.splits)
  have pa: "fst (snd (DisableAzureMonitorPoller_Poll ctx (pa, w))) = pa"
    by (simp add: DisableAzureMonitorPoller_Poll_def split: prod.splits option.splits)
  have pm: "fst (snd (DisableMonitoringPoller_Poll ctx (pm, w))) = pm"
    by (simp add: DisableMonitoringPoller_Poll_def split: prod.splits option.splits)
  from fixed same pa pm show ?thesis by blast
qed

theorem Poll_idempotent_witness:
  "invoke_times 3 DisableAzureMonitorPoller_Poll background
     (NewDisableAzureMonitorPoller steady_client cluster, Some True)
     = (replicate 3 (Some flag_true_result, None),
        (NewDisableAzureMonitorPoller steady_client cluster, Some True))
   \<and> invoke_times 3 DisableMonitoringPoller_Poll background
     (NewDisableMonitoringPoller steady_client cluster, Some True)
     = (replicate 3 (Some flag_true_result, None),
        (NewDisableMonitoringPoller steady_client cluster, Some True))"
proof -
  have h: "snd (GetMonitoringStatus steady_client background cluster (Some True)) = Some True"
    by (simp add: steady_client_def)
  have a: "fst (DisableAzureMonitorPoller_Poll background
              (NewDisableAzureMonitorPoller steady_client cluster, Some True))
            = (Some flag_true_result, None)"
    by (simp add: scenario_defs steady_client_def)
  have m: "fst (DisableMonitoringPoller_Poll background
              (NewDisableMonitoringPoller steady_client cluster, Some True))
            = (Some flag_true_result, None)"
    by (simp add: scenario_defs steady_client_def)
  from Poll_idempotent [of steady_client background cluster "Some True" 3, THEN conjunct1] h
  show ?thesis unfolding a m by simp
qed

text \<open>
  Claim C10. For every context and store, each \<^verbatim>\<open>Poll\<close> returns either an error
  and a nil result, or a nil error and a result whose status is \<^verbatim>\<open>InProgress\<close> or
  \<^verbatim>\<open>Succeeded\<close>; the status \<^verbatim>\<open>Failed\<close> is never returned.
\<close>

theorem Poll_never_Failed:
  "((\<exists>e. fst (DisableAzureMonitorPoller_Poll ctx s) = (None, Some e))
    \<or> (\<exists>r. fst (DisableAzureMonitorPoller_Poll ctx s) = (Some r, None)
          \<and> (Status r = PollingStatusInProgress \<or> Status r = PollingStatusSucceeded)))
   \<and> ((\<exists>e. fst (DisableMonitoringPoller_Poll ctx t) = (None, Some e))
    \<or> (\<exists>r. fst (DisableMonitoringPoller_Poll ctx t) = (Some r, None)
          \<and> (Status r = PollingStatusInProgress \<or> Status r = PollingStatusSucceeded)))
   \<and> map_option Status (fst (fst (DisableAzureMonitorPoller_Poll ctx s))) \<noteq> Some PollingStatusFailed
   \<and> map_option Status (fst (fst (DisableMonitoringPoller_Poll ctx t))) \<noteq> Some PollingStatusFailed"
proof -
  obtain pa w where s: "s = (pa, w)" by (cases s)
  obtain pm v where t: "t = (pm, v)" by (cases t)
  obtain resp err w' where q: "GetMonitoringStatus (DisableAzureMonitorPoller.client pa) ctx
             (DisableAzureMonitorPoller.clusterId pa) w = ((resp, err), w')"
    by (metis surj_pair)
  obtain resp2 err2 v' where q2: "GetMonitoringStatus (DisableMonitoringPoller.client pm) ctx
             (DisableMonitoringPoller.clusterId pm) v = ((resp2, err2), v')"
    by (metis surj_pair)
  show ?thesis
    unfolding s t AzureMonitor_Poll_eq [OF q] Monitoring_Poll_eq [OF q2]
    by (simp split: option.splits)
qed

theorem Poll_never_Failed_witness:
  "fst (DisableAzureMonitorPoller_Poll background
          (NewDisableAzureMonitorPoller scripted_client cluster, [monitoring (Some True)]))
     = (Some flag_true_result, None)
   \<and> fst (DisableMonitoringPoller_Poll background
          (NewDisableMonitoringPoller scripted_client cluster, [no_model]))
     = (None, Some (ModelNilError (''retrieving Monitoring Status for '' @ cluster
                                     @ '': `model` was nil'')))
   \<and> Status flag_true_result \<noteq> PollingStatusFailed"
  using Poll_never_Failed [of background
      "(NewDisableAzureMonitorPoller scripted_client cluster, [monitoring (Some True)])"
      "(NewDisableMonitoringPoller scripted_client cluster, [no_model])"]
  by (simp add: scenario_defs)

end
